theory Spec2Isabelle
  imports Main
begin

section \<open>JavaScript values\<close>

text \<open>
  The wrapper in \<^verbatim>\<open>src/index.js\<close> is dynamically typed: its behaviour is decided by
  truthiness tests, by \<^verbatim>\<open>String(status)\<close>, by \<^verbatim>\<open>typeof f === 'function'\<close> and by property
  reads that throw on \<^verbatim>\<open>undefined\<close>. The values it handles are therefore modelled as data.
  Numbers are the integers (no NaN, no infinities, no fractions); strings are the UTF-8
  bytes of the source text; objects are association lists of their own data properties,
  the first binding of a key being the property's value. Properties inherited from
  prototypes are not modelled.
\<close>

datatype jsval =
    Undefined
  | Null
  | JBool bool
  | JNum int
  | JStr string
  | JArr "jsval list"
  | JObj "(string \<times> jsval) list"

text \<open>ToBoolean: what \<^verbatim>\<open>if (v)\<close>, \<^verbatim>\<open>!v\<close>, \<^verbatim>\<open>a && b\<close> and \<^verbatim>\<open>a || b\<close> test.\<close>

fun truthy :: "jsval \<Rightarrow> bool" where
  "truthy Undefined = False"
| "truthy Null = False"
| "truthy (JBool b) = b"
| "truthy (JNum n) = (n \<noteq> 0)"
| "truthy (JStr s) = (s \<noteq> [])"
| "truthy (JArr xs) = True"
| "truthy (JObj kvs) = True"

text \<open>\<^verbatim>\<open>a || b\<close> on values.\<close>

definition js_or :: "jsval \<Rightarrow> jsval \<Rightarrow> jsval" where
  "js_or a b = (if truthy a then a else b)"

text \<open>Decimal notation of an integer, as \<^verbatim>\<open>String(n)\<close> gives it below \<open>10^21\<close>.\<close>

definition digit_char :: "nat \<Rightarrow> char" where
  "digit_char d = ''0123456789'' ! d"

fun digits :: "nat \<Rightarrow> string" where
  "digits n = (if n < 10 then [digit_char n] else digits (n div 10) @ [digit_char (n mod 10)])"

declare digits.simps [simp del]

definition show_int :: "int \<Rightarrow> string" where
  "show_int n = (if n < 0 then CHR ''-'' # digits (nat (- n)) else digits (nat n))"

fun join_comma :: "string list \<Rightarrow> string" where
  "join_comma [] = []"
| "join_comma [s] = s"
| "join_comma (s # t # ss) = s @ '','' @ join_comma (t # ss)"

text \<open>
  \<^verbatim>\<open>String(v)\<close>, which is also the property key that \<^verbatim>\<open>obj[v]\<close> uses. An array is the
  comma-joined strings of its elements, \<^verbatim>\<open>undefined\<close> and \<^verbatim>\<open>null\<close> elements being empty.
\<close>

fun js_String :: "jsval \<Rightarrow> string" where
  "js_String Undefined = ''undefined''"
| "js_String Null = ''null''"
| "js_String (JBool b) = (if b then ''true'' else ''false'')"
| "js_String (JNum n) = show_int n"
| "js_String (JStr s) = s"
| "js_String (JArr xs) =
     join_comma (map (\<lambda>x. if x = Undefined \<or> x = Null then [] else js_String x) xs)"
| "js_String (JObj kvs) = ''[object Object]''"

text \<open>
  Exceptions. \<open>TypeError\<close> is what the engine throws on a property read of
  \<^verbatim>\<open>undefined\<close>/\<^verbatim>\<open>null\<close> and on a call of a non-function; \<open>Thrown v\<close> is a value thrown
  by caller-supplied code.
\<close>

datatype exn = TypeError | Thrown jsval

text \<open>\<^verbatim>\<open>v.k\<close> for a \<open>v\<close> that is neither \<^verbatim>\<open>undefined\<close> nor \<^verbatim>\<open>null\<close>.\<close>

fun own :: "jsval \<Rightarrow> string \<Rightarrow> jsval" where
  "own (JObj kvs) k = (case map_of kvs k of None \<Rightarrow> Undefined | Some v \<Rightarrow> v)"
| "own v k = Undefined"

text \<open>\<^verbatim>\<open>v.k\<close> in general.\<close>

definition get_prop :: "jsval \<Rightarrow> string \<Rightarrow> exn + jsval" where
  "get_prop v k = (if v = Undefined \<or> v = Null then Inl TypeError else Inr (own v k))"

text \<open>An object given by its properties, and \<^verbatim>\<open>m.k\<close> on it.\<close>

type_synonym jsobj = "string \<rightharpoonup> jsval"

definition field_of :: "jsobj \<Rightarrow> string \<Rightarrow> jsval" where
  "field_of m k = (case m k of None \<Rightarrow> Undefined | Some v \<Rightarrow> v)"

text \<open>The own properties that \<^verbatim>\<open>{...v}\<close> and axios' config merge copy from a value.\<close>

fun own_props :: "jsval \<Rightarrow> jsobj" where
  "own_props (JObj kvs) = map_of kvs"
| "own_props v = Map.empty"

subsection \<open>Callbacks and their observable calls\<close>

text \<open>
  A caller-supplied callback is either a function or some other value (the code tests
  \<^verbatim>\<open>typeof f === 'function'\<close>). Functions are opaque: \<open>UserFn n\<close> is the caller's function
  number \<open>n\<close>, whose calls are recorded; \<open>NoOp\<close> is the arrow function \<^verbatim>\<open>() => {}\<close>, whose
  call has no effect. Callbacks are assumed to return normally.
\<close>

datatype fname = NoOp | UserFn nat

datatype callee = Callable fname | NonCallable jsval

fun truthy_callee :: "callee \<Rightarrow> bool" where
  "truthy_callee (Callable f) = True"
| "truthy_callee (NonCallable v) = truthy v"

fun is_function :: "callee \<Rightarrow> bool" where
  "is_function (Callable f) = True"
| "is_function (NonCallable v) = False"

text \<open>The call sites of the wrapper, and a recorded call: site, function, arguments.\<close>

datatype site = LoadingStart | LoadingStop | Tip | Handler

datatype event = Call site nat "jsval list"

text \<open>The effect of \<^verbatim>\<open>f(args)\<close> at a site, for an \<open>f\<close> that is a function.\<close>

fun effect :: "site \<Rightarrow> callee \<Rightarrow> jsval list \<Rightarrow> event list" where
  "effect s (Callable (UserFn n)) args = [Call s n args]"
| "effect s (Callable NoOp) args = []"
| "effect s (NonCallable v) args = []"

text \<open>\<^verbatim>\<open>f(args)\<close> in general: calling a non-function throws.\<close>

definition invoke :: "site \<Rightarrow> callee \<Rightarrow> jsval list \<Rightarrow> exn + event list" where
  "invoke s f args = (if is_function f then Inr (effect s f args) else Inl TypeError)"

section \<open>The error-message catalog\<close>

text \<open>\<^verbatim>\<open>ERROR_MESSAGE_MAPS\<close>, lines 3 to 32. Numeric keys of an object literal are strings.\<close>

definition zh_cn :: "(string \<times> string) list" where
  "zh_cn =
     [(''DEFAULT'', [CHR 0xE6, CHR 0x8E, CHR 0xA5, CHR 0xE5, CHR 0x8F, CHR 0xA3,
                     CHR 0xE8, CHR 0xAF, CHR 0xB7, CHR 0xE6, CHR 0xB1, CHR 0x82,
                     CHR 0xE5, CHR 0xA4, CHR 0xB1, CHR 0xE8, CHR 0xB4, CHR 0xA5]),
      (''OFFLINE'', [CHR 0xE7, CHR 0xBD, CHR 0x91, CHR 0xE7, CHR 0xBB, CHR 0x9C,
                     CHR 0xE8, CHR 0xBF, CHR 0x9E, CHR 0xE6, CHR 0x8E, CHR 0xA5,
                     CHR 0xE6, CHR 0x96, CHR 0xAD, CHR 0xE5, CHR 0xBC, CHR 0x80]),
      (''400'', [CHR 0xE8, CHR 0xAF, CHR 0xB7, CHR 0xE6, CHR 0xB1, CHR 0x82,
                 CHR 0xE9, CHR 0x94, CHR 0x99, CHR 0xE8, CHR 0xAF, CHR 0xAF]),
      (''401'', [CHR 0xE6, CHR 0x9C, CHR 0xAA, CHR 0xE6, CHR 0x8E, CHR 0x88,
                 CHR 0xE6, CHR 0x9D, CHR 0x83, CHR 0xEF, CHR 0xBC, CHR 0x8C,
                 CHR 0xE8, CHR 0xAF, CHR 0xB7, CHR 0xE7, CHR 0xA1, CHR 0xAE,
                 CHR 0xE8, CHR 0xAE, CHR 0xA4, CHR 0xE6, CHR 0x98, CHR 0xAF,
                 CHR 0xE5, CHR 0x90, CHR 0xA6, CHR 0xE7, CHR 0x99, CHR 0xBB,
                 CHR 0xE5, CHR 0xBD, CHR 0x95]),
      (''403'', [CHR 0xE6, CHR 0x97, CHR 0xA0, CHR 0xE6, CHR 0x9D, CHR 0x83,
                 CHR 0xE9, CHR 0x99, CHR 0x90, CHR 0xEF, CHR 0xBC, CHR 0x8C,
                 CHR 0xE7, CHR 0xA6, CHR 0x81, CHR 0xE6, CHR 0xAD, CHR 0xA2,
                 CHR 0xE8, CHR 0xAE, CHR 0xBF, CHR 0xE9, CHR 0x97, CHR 0xAE]),
      (''404'', [CHR 0xE6, CHR 0x8E, CHR 0xA5, CHR 0xE5, CHR 0x8F, CHR 0xA3,
                 CHR 0xE6, CHR 0x88, CHR 0x96, CHR 0xE8, CHR 0xB5, CHR 0x84,
                 CHR 0xE6, CHR 0xBA, CHR 0x90, CHR 0xE4, CHR 0xB8, CHR 0x8D,
                 CHR 0xE5, CHR 0xAD, CHR 0x98, CHR 0xE5, CHR 0x9C, CHR 0xA8]),
      (''405'', [CHR 0xE8, CHR 0xAF, CHR 0xB7, CHR 0xE6, CHR 0xB1, CHR 0x82,
                 CHR 0xE6, CHR 0x96, CHR 0xB9, CHR 0xE5, CHR 0xBC, CHR 0x8F,
                 CHR 0xE4, CHR 0xB8, CHR 0x8D, CHR 0xE5, CHR 0x85, CHR 0x81,
                 CHR 0xE8, CHR 0xAE, CHR 0xB8]),
      (''413'', [CHR 0xE8, CHR 0xB5, CHR 0x84, CHR 0xE6, CHR 0xBA, CHR 0x90,
                 CHR 0xE8, CHR 0xBF, CHR 0x87, CHR 0xE5, CHR 0xA4, CHR 0xA7]),
      (''414'', [CHR 0x55, CHR 0x52, CHR 0x49, CHR 0xE8, CHR 0xBF, CHR 0x87,
                 CHR 0xE9, CHR 0x95, CHR 0xBF]),
      (''500'', [CHR 0xE6, CHR 0x9C, CHR 0x8D, CHR 0xE5, CHR 0x8A, CHR 0xA1,
                 CHR 0xE5, CHR 0x99, CHR 0xA8, CHR 0xE5, CHR 0x86, CHR 0x85,
                 CHR 0xE9, CHR 0x83, CHR 0xA8, CHR 0xE9, CHR 0x94, CHR 0x99,
                 CHR 0xE8, CHR 0xAF, CHR 0xAF]),
      (''502'', [CHR 0xE7, CHR 0xBD, CHR 0x91, CHR 0xE5, CHR 0x85, CHR 0xB3,
                 CHR 0xE9, CHR 0x94, CHR 0x99, CHR 0xE8, CHR 0xAF, CHR 0xAF]),
      (''504'', [CHR 0xE7, CHR 0xBD, CHR 0x91, CHR 0xE5, CHR 0x85, CHR 0xB3,
                 CHR 0xE8, CHR 0xB6, CHR 0x85, CHR 0xE6, CHR 0x97, CHR 0xB6])]"

definition en :: "(string \<times> string) list" where
  "en =
     [(''DEFAULT'', ''Request Failed''),
      (''OFFLINE'', ''Network is Offline''),
      (''400'', ''Bad Request''),
      (''401'', ''Unauthorized''),
      (''403'', ''Forbidden''),
      (''404'', ''Not Found''),
      (''405'', ''Method Not Allowed''),
      (''413'', ''Payload Too Large''),
      (''414'', ''URI Too Long''),
      (''500'', ''Internal Server Error''),
      (''502'', ''Bad Gateway''),
      (''504'', ''Gateway Timeout'')]"

definition ERROR_MESSAGE_MAPS :: "string \<rightharpoonup> (string \<rightharpoonup> string)" where
  "ERROR_MESSAGE_MAPS = map_of [(''zh-cn'', map_of zh_cn), (''en'', map_of en)]"

section \<open>The class VeryAxios\<close>

subsection \<open>Constructor\<close>

text \<open>
  The first constructor argument, destructured with defaults. A default applies when the
  property is \<^verbatim>\<open>undefined\<close>: \<open>Undefined\<close>, \<open>NonCallable Undefined\<close> or \<open>None\<close> here. The three
  accessors are functions of the response body that may throw.
\<close>

type_synonym accessor = "jsval \<Rightarrow> exn + jsval"

record options =
  opt_tip :: jsval
  opt_tipFn :: callee
  opt_errorHandlers :: "(string \<rightharpoonup> callee) option"
  opt_lang :: "string option"
  opt_loadingHandler :: callee
  opt_loadingCancelHanlder :: callee
  opt_getResponseStatus :: "accessor option"
  opt_getResponseMessage :: "accessor option"
  opt_getResponseData :: "accessor option"

text \<open>\<^verbatim>\<open>new VeryAxios()\<close> and \<^verbatim>\<open>new VeryAxios({})\<close>: no option given.\<close>

definition no_options :: options where
  "no_options =
     \<lparr>opt_tip = Undefined, opt_tipFn = NonCallable Undefined,
      opt_errorHandlers = None, opt_lang = None,
      opt_loadingHandler = NonCallable Undefined,
      opt_loadingCancelHanlder = NonCallable Undefined,
      opt_getResponseStatus = None, opt_getResponseMessage = None,
      opt_getResponseData = None\<rparr>"

text \<open>The fields that the constructor sets on \<^verbatim>\<open>this\<close>.\<close>

record client =
  defaultAxiosConfig :: jsobj
  tip :: jsval
  tipFn :: callee
  errorHandlers :: "string \<rightharpoonup> callee"
  lang :: string
  loadingHandler :: callee
  loadingCancelHanlder :: callee
  getResponseStatus :: accessor
  getResponseMessage :: accessor
  getResponseData :: accessor
  config :: jsobj

text \<open>The parameter defaults of lines 38 to 49.\<close>

definition default_jsval :: "jsval \<Rightarrow> jsval \<Rightarrow> jsval" where
  "default_jsval d v = (if v = Undefined then d else v)"

definition default_callee :: "callee \<Rightarrow> callee \<Rightarrow> callee" where
  "default_callee d f = (if f = NonCallable Undefined then d else f)"

definition default_option :: "'a \<Rightarrow> 'a option \<Rightarrow> 'a" where
  "default_option d v = (case v of None \<Rightarrow> d | Some x \<Rightarrow> x)"

definition tip_param :: "options \<Rightarrow> jsval" where
  "tip_param opts = default_jsval (JBool True) (opt_tip opts)"

definition default_getResponseStatus :: accessor where
  "default_getResponseStatus response = get_prop response ''errno''"

definition default_getResponseMessage :: accessor where
  "default_getResponseMessage response = get_prop response ''errmsg''"

definition default_getResponseData :: accessor where
  "default_getResponseData response = get_prop response ''data''"

text \<open>Lines 54 to 60.\<close>

definition default_axios_config :: "(string \<times> jsval) list" where
  "default_axios_config =
     [(''timeout'', JNum 20000),
      (''responseType'', JStr ''json''),
      (''headers'', JObj [(''content-type'', JStr ''application/json'')])]"

text \<open>
  Line 62, \<^verbatim>\<open>tip && tipFn && typeof tipFn === 'function'\<close>: the first falsy operand, or
  the result of the comparison.
\<close>

definition tip_gate :: "jsval \<Rightarrow> callee \<Rightarrow> jsval" where
  "tip_gate t f =
     (if \<not> truthy t then t
      else (case f of
              NonCallable v \<Rightarrow> if \<not> truthy v then v else JBool False
            | Callable g \<Rightarrow> JBool True))"

text \<open>
  The constructor, lines 35 to 76. The second argument is given by its own properties
  (none when it is omitted); \<^verbatim>\<open>{ ...defaults, ...axiosConfig }\<close> is map override.
\<close>

definition VeryAxios :: "options \<Rightarrow> jsobj \<Rightarrow> client" where
  "VeryAxios opts axiosConfig =
     \<lparr>defaultAxiosConfig = map_of default_axios_config,
      tip = tip_gate (tip_param opts) (opt_tipFn opts),
      tipFn = opt_tipFn opts,
      errorHandlers = default_option Map.empty (opt_errorHandlers opts),
      lang = default_option ''zh-cn'' (opt_lang opts),
      loadingHandler = default_callee (Callable NoOp) (opt_loadingHandler opts),
      loadingCancelHanlder = default_callee (Callable NoOp) (opt_loadingCancelHanlder opts),
      getResponseStatus = default_option default_getResponseStatus (opt_getResponseStatus opts),
      getResponseMessage = default_option default_getResponseMessage (opt_getResponseMessage opts),
      getResponseData = default_option default_getResponseData (opt_getResponseData opts),
      config = map_of default_axios_config ++ axiosConfig\<rparr>"

subsection \<open>Interceptors\<close>

text \<open>
  What axios hands to the response interceptors: a response with its request config and
  parsed body, or the reason of a failure. axios sets \<^verbatim>\<open>config\<close> on every response and on
  the errors it builds itself, which may also carry the server response and the request
  object. A cancellation, or an exception thrown before the request is sent (by a request
  transform, say), reaches the error handler as it is, with a message and no
  \<^verbatim>\<open>config\<close>: \<open>err_config\<close> is \<open>None\<close> then.
\<close>

record response =
  res_config :: jsobj
  res_data :: jsval

record error =
  err_config :: "jsobj option"
  err_response :: jsval
  err_request :: jsval
  err_message :: jsval

text \<open>The ambient state read by line 127, \<^verbatim>\<open>window.navigator.onLine\<close>.\<close>

record env =
  onLine :: bool

text \<open>
  \<^verbatim>\<open>config.veryAxiosConfig && config.veryAxiosConfig.loading\<close>, lines 85, 96 and 118. The
  property read happens on a truthy value only, so it cannot throw.
\<close>

definition loading_of :: "jsobj \<Rightarrow> jsval" where
  "loading_of cfg =
     (let v = field_of cfg ''veryAxiosConfig'' in if truthy v then own v ''loading'' else v)"

text \<open>Request interceptor, lines 84 to 88: the calls made; the config is returned as it is.\<close>

definition request_interceptor :: "client \<Rightarrow> jsobj \<Rightarrow> event list \<times> jsobj" where
  "request_interceptor this cfg =
     (let loading = loading_of cfg in
      (if truthy loading \<and> truthy_callee (loadingHandler this) \<and> is_function (loadingHandler this)
       then effect LoadingStart (loadingHandler this) [] else [],
       cfg))"

text \<open>The guarded call of the loading-stop callback, lines 97 and 120.\<close>

definition loading_cancel :: "client \<Rightarrow> jsobj \<Rightarrow> event list" where
  "loading_cancel this cfg =
     (let loading = loading_of cfg in
      if truthy loading \<and> truthy_callee (loadingCancelHanlder this)
         \<and> is_function (loadingCancelHanlder this)
      then effect LoadingStop (loadingCancelHanlder this) [] else [])"

text \<open>
  Lines 108 and 131 test \<^verbatim>\<open>typeof errorHandlers === 'function'\<close>. The identifier
  \<^verbatim>\<open>errorHandlers\<close> is a parameter of the constructor only; inside \<^verbatim>\<open>interceptors()\<close> it is
  bound nowhere, and \<^verbatim>\<open>typeof\<close> of an unresolvable identifier is \<^verbatim>\<open>'undefined'\<close>.
\<close>

definition typeof_errorHandlers :: string where
  "typeof_errorHandlers = ''undefined''"

text \<open>
  Lines 107 to 108 and 130 to 131:
  \<^verbatim>\<open>const errorHandler = this.errorHandlers[status];\<close>
  \<^verbatim>\<open>if (errorHandler && typeof errorHandlers === 'function') errorHandler();\<close>
\<close>

definition run_errorHandler :: "client \<Rightarrow> jsval \<Rightarrow> exn + event list" where
  "run_errorHandler this status =
     (let errorHandler =
            (case errorHandlers this (js_String status) of
               None \<Rightarrow> NonCallable Undefined | Some h \<Rightarrow> h) in
      if truthy_callee errorHandler \<and> typeof_errorHandlers = ''function''
      then invoke Handler errorHandler [] else Inr [])"

text \<open>\<^verbatim>\<open>if (this.tip) this.tipFn(message);\<close>, lines 106 and 143.\<close>

definition show_tip :: "client \<Rightarrow> jsval \<Rightarrow> exn + event list" where
  "show_tip this message =
     (if truthy (tip this) then invoke Tip (tipFn this) [message] else Inr [])"

text \<open>
  A promise: pending (\<open>None\<close>) or settled. \<open>Failed e\<close> is a rejection whose reason is the
  exception \<open>e\<close>. Settling a settled promise changes nothing.
\<close>

datatype outcome = Resolved jsval | Rejected jsval | Failed exn

type_synonym promise = "outcome option"

definition settle :: "outcome \<Rightarrow> promise \<Rightarrow> promise" where
  "settle out p = (case p of None \<Rightarrow> Some out | Some s \<Rightarrow> Some s)"

text \<open>
  Line 102: \<^verbatim>\<open>this.getResponseMessage(resData) || ERROR_MESSAGE_MAPS[this.lang].DEFAULT\<close>.
  The right operand is evaluated only for a falsy message, and throws when the catalog
  has no table for the language.
\<close>

definition resolved_message :: "client \<Rightarrow> jsval \<Rightarrow> exn + jsval" where
  "resolved_message this resData =
     (case getResponseMessage this resData of
        Inl e \<Rightarrow> Inl e
      | Inr m \<Rightarrow>
          if truthy m then Inr m
          else (case ERROR_MESSAGE_MAPS (lang this) of
                  None \<Rightarrow> Inl TypeError
                | Some errmsgMaps \<Rightarrow>
                    Inr (case errmsgMaps ''DEFAULT'' of None \<Rightarrow> Undefined | Some s \<Rightarrow> JStr s)))"

text \<open>
  The executor of the promise of lines 98 to 112, from the state \<open>p\<close> that line 99 leaves.
  An exception inside an executor rejects the promise, if it is still pending. After
  \<^verbatim>\<open>reject(message)\<close> the code goes on to \<^verbatim>\<open>resolve(data)\<close>.
\<close>

definition executor :: "client \<Rightarrow> jsval \<Rightarrow> promise \<Rightarrow> event list \<times> promise" where
  "executor this resData p =
     (case getResponseStatus this resData of
        Inl e \<Rightarrow> ([], settle (Failed e) p)
      | Inr status \<Rightarrow>
     (case resolved_message this resData of
        Inl e \<Rightarrow> ([], settle (Failed e) p)
      | Inr message \<Rightarrow>
     (case getResponseData this resData of
        Inl e \<Rightarrow> ([], settle (Failed e) p)
      | Inr data \<Rightarrow>
          if js_String status \<noteq> ''0'' then
            (case show_tip this message of
               Inl e \<Rightarrow> ([], settle (Failed e) p)
             | Inr tipped \<Rightarrow>
            (case run_errorHandler this status of
               Inl e \<Rightarrow> (tipped, settle (Failed e) p)
             | Inr handled \<Rightarrow>
                 (tipped @ handled, settle (Resolved data) (settle (Rejected message) p))))
          else ([], settle (Resolved data) p))))"

text \<open>
  Response success handler, lines 94 to 113. \<^verbatim>\<open>res\<close> is an object, so line 99 tests the
  body alone; \<^verbatim>\<open>resolve()\<close> there is not followed by a return.
\<close>

definition response_success :: "client \<Rightarrow> response \<Rightarrow> event list \<times> promise" where
  "response_success this res =
     (let stopped = loading_cancel this (res_config res);
          p = (if \<not> truthy (res_data res) then settle (Resolved Undefined) None else None);
          (evs, q) = executor this (res_data res) p
      in (stopped @ evs, q))"

text \<open>
  The value of \<^verbatim>\<open>errmsg\<close> when control reaches line 143, or the exception thrown before.
  Lines 117 and 118 read \<^verbatim>\<open>error.config.veryAxiosConfig\<close> unguarded, which throws for a
  failure without \<^verbatim>\<open>config\<close>; line 122 reads \<^verbatim>\<open>errmsgMaps.DEFAULT\<close>, which throws when
  the catalog has no table for the language. The handler call of lines 130 and 131 is
  left to \<open>response_error\<close>.
\<close>

definition error_message :: "client \<Rightarrow> env \<Rightarrow> error \<Rightarrow> exn + jsval" where
  "error_message this e error =
     (case err_config error of
        None \<Rightarrow> Inl TypeError
      | Some cfg \<Rightarrow>
     (case ERROR_MESSAGE_MAPS (lang this) of
        None \<Rightarrow> Inl TypeError
      | Some errmsgMaps \<Rightarrow>
          if truthy (err_response error) then
            (let status = own (err_response error) ''status'' in
             if \<not> onLine e
             then Inr (case errmsgMaps ''OFFLINE'' of None \<Rightarrow> Undefined | Some s \<Rightarrow> JStr s)
             else Inr (js_or (case errmsgMaps (js_String status) of
                                None \<Rightarrow> Undefined | Some s \<Rightarrow> JStr s)
                             (err_message error)))
          else if truthy (err_request error) then Inr (err_message error)
          else Inr (err_message error)))"

text \<open>
  Response error handler, lines 116 to 144: the calls made, and how the function ends
  (the value it returns, or the exception it throws). Without \<^verbatim>\<open>config\<close> it throws at
  line 118, before any call. It has no return statement.
\<close>

definition response_error :: "client \<Rightarrow> env \<Rightarrow> error \<Rightarrow> event list \<times> (exn + jsval)" where
  "response_error this e error =
     (case err_config error of
        None \<Rightarrow> ([], Inl TypeError)
      | Some cfg \<Rightarrow>
     (let stopped = loading_cancel this cfg in
      case error_message this e error of
        Inl x \<Rightarrow> (stopped, Inl x)
      | Inr errmsg \<Rightarrow>
     (case (if truthy (err_response error)
            then run_errorHandler this (own (err_response error) ''status'')
            else Inr []) of
        Inl x \<Rightarrow> (stopped, Inl x)
      | Inr handled \<Rightarrow>
     (case show_tip this errmsg of
        Inl x \<Rightarrow> (stopped @ handled, Inl x)
      | Inr tipped \<Rightarrow> (stopped @ handled @ tipped, Inr Undefined)))))"

subsection \<open>The axios client\<close>

text \<open>
  axios is an external library; what follows is its documented behaviour as far as the
  wrapper relies on it. \<^verbatim>\<open>get\<close> and \<^verbatim>\<open>delete\<close> take \<^verbatim>\<open>(url, config)\<close>, \<^verbatim>\<open>post\<close> and \<^verbatim>\<open>put\<close>
  take \<^verbatim>\<open>(url, data, config)\<close>; further arguments are ignored. The request config is the
  client config overridden by the call's config and by the method, URL and data.
  The network is a parameter: it answers with a 2xx body (\<open>Responds\<close>), fails with an
  error that axios builds from the server response, the request object and a message
  (\<open>Fails\<close>), or the request is given up, by a cancellation or an exception before it is
  sent, with a reason that has a message only (\<open>Aborts\<close>).
\<close>

datatype net = Responds jsval | Fails jsval jsval jsval | Aborts jsval

definition request_config :: "client \<Rightarrow> jsval \<Rightarrow> (string \<times> jsval) list \<Rightarrow> jsobj" where
  "request_config this cfg fixed = config this ++ own_props cfg ++ map_of fixed"

text \<open>
  One request through the interceptor chain: request interceptor, network, response
  interceptor. A value returned by the error handler fulfils the chain; an exception
  rejects it.
\<close>

definition axios_request :: "client \<Rightarrow> env \<Rightarrow> net \<Rightarrow> jsobj \<Rightarrow> event list \<times> promise" where
  "axios_request this e n cfg =
     (let (started, cfg') = request_interceptor this cfg in
      case n of
        Responds body \<Rightarrow>
          (let (evs, p) = response_success this \<lparr>res_config = cfg', res_data = body\<rparr>
           in (started @ evs, p))
      | Fails rsp req msg \<Rightarrow>
          (case response_error this e
                  \<lparr>err_config = Some cfg', err_response = rsp, err_request = req,
                   err_message = msg\<rparr> of
             (evs, Inl x) \<Rightarrow> (started @ evs, Some (Failed x))
           | (evs, Inr v) \<Rightarrow> (started @ evs, Some (Resolved v)))
      | Aborts msg \<Rightarrow>
          (case response_error this e
                  \<lparr>err_config = None, err_response = Undefined, err_request = Undefined,
                   err_message = msg\<rparr> of
             (evs, Inl x) \<Rightarrow> (started @ evs, Some (Failed x))
           | (evs, Inr v) \<Rightarrow> (started @ evs, Some (Resolved v))))"

text \<open>\<^verbatim>\<open>this.axios[type](a, b, c)\<close>; an unknown \<open>type\<close> is a call of \<^verbatim>\<open>undefined\<close>.\<close>

definition axios_verb ::
  "client \<Rightarrow> env \<Rightarrow> net \<Rightarrow> string \<Rightarrow> jsval \<Rightarrow> jsval \<Rightarrow> jsval \<Rightarrow> exn + event list \<times> promise" where
  "axios_verb this e n type a b c =
     (if type = ''get'' \<or> type = ''delete'' then
        Inr (axios_request this e n
               (request_config this b [(''method'', JStr type), (''url'', a)]))
      else if type = ''post'' \<or> type = ''put'' then
        Inr (axios_request this e n
               (request_config this c [(''method'', JStr type), (''url'', a), (''data'', b)]))
      else Inl TypeError)"

subsection \<open>Public methods\<close>

text \<open>
  \<^verbatim>\<open>fetch\<close>, lines 154 to 160: the outcome of the axios call, passed on unchanged. The
  parameter defaults replace \<^verbatim>\<open>undefined\<close> by \<^verbatim>\<open>{}\<close>.
\<close>

definition fetch ::
  "client \<Rightarrow> env \<Rightarrow> net \<Rightarrow> string \<Rightarrow> jsval \<Rightarrow> jsval \<Rightarrow> jsval \<Rightarrow> event list \<times> promise" where
  "fetch this e n type path param cfg =
     (case axios_verb this e n type path
             (default_jsval (JObj []) param) (default_jsval (JObj []) cfg) of
        Inl x \<Rightarrow> ([], Some (Failed x))
      | Inr r \<Rightarrow> r)"

text \<open>Lines 167 to 196.\<close>

definition GET :: "client \<Rightarrow> env \<Rightarrow> net \<Rightarrow> jsval \<Rightarrow> jsval \<Rightarrow> jsval \<Rightarrow> event list \<times> promise" where
  "GET this e n path param opts =
     fetch this e n ''get'' path
       (JObj [(''params'', default_jsval (JObj []) param),
              (''veryAxiosConfig'', default_jsval (JObj []) opts)])
       Undefined"

definition POST :: "client \<Rightarrow> env \<Rightarrow> net \<Rightarrow> jsval \<Rightarrow> jsval \<Rightarrow> jsval \<Rightarrow> event list \<times> promise" where
  "POST this e n path param opts =
     fetch this e n ''post'' path (default_jsval (JObj []) param) (default_jsval (JObj []) opts)"

definition PUT :: "client \<Rightarrow> env \<Rightarrow> net \<Rightarrow> jsval \<Rightarrow> jsval \<Rightarrow> jsval \<Rightarrow> event list \<times> promise" where
  "PUT this e n path param opts =
     fetch this e n ''put'' path (default_jsval (JObj []) param) (default_jsval (JObj []) opts)"

definition DELETE :: "client \<Rightarrow> env \<Rightarrow> net \<Rightarrow> jsval \<Rightarrow> jsval \<Rightarrow> jsval \<Rightarrow> event list \<times> promise" where
  "DELETE this e n path param opts =
     fetch this e n ''delete'' path (default_jsval (JObj []) param) (default_jsval (JObj []) opts)"

text \<open>
  \<^verbatim>\<open>FORMDATA\<close>, lines 203 to 213: a call of the axios instance itself, with the method,
  the data and the content type fixed.
\<close>

definition FORMDATA :: "client \<Rightarrow> env \<Rightarrow> net \<Rightarrow> jsval \<Rightarrow> jsval \<Rightarrow> event list \<times> promise" where
  "FORMDATA this e n path formdata =
     axios_request this e n
       (request_config this
          (JObj [(''method'', JStr ''post''),
                 (''data'', formdata),
                 (''headers'', JObj [(''content-type'', JStr ''multipart/form-data;charset=UTF-8'')])])
          [(''url'', path)])"

section \<open>Traces and sample inputs\<close>

text \<open>The site of a recorded call.\<close>

fun site_of :: "event \<Rightarrow> site" where
  "site_of (Call s n args) = s"

text \<open>
  A client with every callback supplied: tips through function 0, handlers for the business
  status 1 (function 1) and the HTTP status 401 (function 2), loading start and stop
  through functions 3 and 4, language \<^verbatim>\<open>en\<close>, default accessors.
\<close>

definition sample_options :: options where
  "sample_options =
     \<lparr>opt_tip = JBool True, opt_tipFn = Callable (UserFn 0),
      opt_errorHandlers = Some [''1'' \<mapsto> Callable (UserFn 1), ''401'' \<mapsto> Callable (UserFn 2)],
      opt_lang = Some ''en'',
      opt_loadingHandler = Callable (UserFn 3),
      opt_loadingCancelHanlder = Callable (UserFn 4),
      opt_getResponseStatus = None, opt_getResponseMessage = None,
      opt_getResponseData = None\<rparr>"

definition sample_client :: client where
  "sample_client = VeryAxios sample_options Map.empty"

text \<open>The message of the scenario \<^verbatim>\<open>zh-cn\<close>, business status \<^verbatim>\<open>"1"\<close>, in UTF-8.\<close>

definition custom_error :: string where
  "custom_error =
     [CHR 0xE8, CHR 0x87, CHR 0xAA, CHR 0xE5, CHR 0xAE, CHR 0x9A,
      CHR 0xE4, CHR 0xB9, CHR 0x89, CHR 0xE9, CHR 0x94, CHR 0x99,
      CHR 0xE8, CHR 0xAF, CHR 0xAF]"

text \<open>Request configs with and without a truthy loading flag, as the interceptors see them.\<close>

definition loading_config :: jsobj where
  "loading_config = [''veryAxiosConfig'' \<mapsto> JObj [(''loading'', JBool True)]]"

text \<open>A body reporting business success, one reporting business failure, and an HTTP 401.\<close>

definition ok_body :: jsval where
  "ok_body = JObj [(''errno'', JNum 0), (''data'', JStr ''payload'')]"

definition denied_body :: jsval where
  "denied_body = JObj [(''errno'', JNum 1), (''errmsg'', JStr ''denied'')]"

definition unauthorized :: error where
  "unauthorized =
     \<lparr>err_config = Some loading_config,
      err_response = JObj [(''status'', JNum 401)],
      err_request = JObj [],
      err_message = JStr ''Request failed with status code 401''\<rparr>"

text \<open>
  An HTTP 404 whose body has no message field, and two failures as they reach the error
  handler without \<^verbatim>\<open>config\<close>: the reason of a cancelled request, and an exception thrown
  by a request transform before sending.
\<close>

definition not_found :: error where
  "not_found =
     \<lparr>err_config = Some Map.empty,
      err_response = JObj [(''status'', JNum 404), (''data'', JObj [])],
      err_request = JObj [],
      err_message = JStr ''Request failed with status code 404''\<rparr>"


definition setup_failure :: error where
  "setup_failure =
     \<lparr>err_config = None, err_response = Undefined, err_request = Undefined,
      err_message = JStr ''transform failed''\<rparr>"

section \<open>Basic facts\<close>

lemma run_errorHandler_idle: "run_errorHandler c st = Inr []"
  by (simp add: run_errorHandler_def typeof_errorHandlers_def)

lemma settle_simps [simp]:
  "settle out None = Some out" "settle out (Some s) = Some s"
  by (simp_all add: settle_def)

lemma show_tip_cases:
  "show_tip c m =
     (if truthy (tip c)
      then (if is_function (tipFn c) then Inr (effect Tip (tipFn c) [m]) else Inl TypeError)
      else Inr [])"
  by (simp add: show_tip_def invoke_def)

lemma tip_gate_truthy: "truthy (tip_gate t f) \<longleftrightarrow> truthy t \<and> is_function f"
  by (cases f) (auto simp: tip_gate_def)

lemma constructed_gate:
  "truthy (tip (VeryAxios opts ac)) \<Longrightarrow> is_function (tipFn (VeryAxios opts ac))"
  by (simp add: VeryAxios_def tip_gate_truthy)

lemma effect_site: "ev \<in> set (effect s f args) \<Longrightarrow> site_of ev = s"
  by (cases "(s, f, args)" rule: effect.cases) auto

lemma loading_cancel_sites: "ev \<in> set (loading_cancel c cfg) \<Longrightarrow> site_of ev = LoadingStop"
  by (auto simp: loading_cancel_def Let_def dest: effect_site split: if_splits)

subsection \<open>The catalog\<close>

lemma catalog_cases:
  "ERROR_MESSAGE_MAPS l = Some m \<Longrightarrow>
     (l = ''zh-cn'' \<and> m = map_of zh_cn) \<or> (l = ''en'' \<and> m = map_of en)"
  by (auto simp: ERROR_MESSAGE_MAPS_def split: if_splits)

lemma zh_cn_dom:
  "dom (map_of zh_cn) =
     {''DEFAULT'', ''OFFLINE'', ''400'', ''401'', ''403'', ''404'', ''405'', ''413'', ''414'',
      ''500'', ''502'', ''504''}"
  by (simp add: dom_map_of_conv_image_fst zh_cn_def)

lemma en_dom:
  "dom (map_of en) =
     {''DEFAULT'', ''OFFLINE'', ''400'', ''401'', ''403'', ''404'', ''405'', ''413'', ''414'',
      ''500'', ''502'', ''504''}"
  by (simp add: dom_map_of_conv_image_fst en_def)

lemma zh_cn_nonempty:
  assumes "map_of zh_cn k = Some s"
  shows "s \<noteq> []"
proof -
  from assms have "(k, s) \<in> set zh_cn" by (rule map_of_SomeD)
  then show ?thesis by (auto simp: zh_cn_def)
qed

lemma en_nonempty:
  assumes "map_of en k = Some s"
  shows "s \<noteq> []"
proof -
  from assms have "(k, s) \<in> set en" by (rule map_of_SomeD)
  then show ?thesis by (auto simp: en_def)
qed

lemma catalog_nonempty: "ERROR_MESSAGE_MAPS l = Some m \<Longrightarrow> m k = Some s \<Longrightarrow> s \<noteq> []"
  by (auto dest!: catalog_cases dest: zh_cn_nonempty en_nonempty)

lemma catalog_has:
  assumes "ERROR_MESSAGE_MAPS l = Some m"
  shows "\<exists>d off. m ''DEFAULT'' = Some d \<and> m ''OFFLINE'' = Some off"
  using catalog_cases [OF assms] by (auto simp: zh_cn_def en_def)

lemma catalog_en: "ERROR_MESSAGE_MAPS ''en'' = Some (map_of en)"
  by (simp add: ERROR_MESSAGE_MAPS_def)

lemma catalog_zh_cn: "ERROR_MESSAGE_MAPS ''zh-cn'' = Some (map_of zh_cn)"
  by (simp add: ERROR_MESSAGE_MAPS_def)

subsection \<open>Evaluating the sample inputs\<close>

lemma show_int_small:
  "show_int 0 = ''0''" "show_int 1 = ''1''" "show_int 401 = ''401''" "show_int 404 = ''404''"
  by (simp_all add: show_int_def digits.simps digit_char_def)

lemma sample_client_fields:
  "tip sample_client = JBool True"
  "tipFn sample_client = Callable (UserFn 0)"
  "errorHandlers sample_client = [''1'' \<mapsto> Callable (UserFn 1), ''401'' \<mapsto> Callable (UserFn 2)]"
  "lang sample_client = ''en''"
  "loadingHandler sample_client = Callable (UserFn 3)"
  "loadingCancelHanlder sample_client = Callable (UserFn 4)"
  "getResponseStatus sample_client = default_getResponseStatus"
  "getResponseMessage sample_client = default_getResponseMessage"
  "getResponseData sample_client = default_getResponseData"
  "config sample_client = map_of default_axios_config"
  by (simp_all add: sample_client_def sample_options_def VeryAxios_def tip_gate_def tip_param_def
      default_jsval_def default_callee_def default_option_def)

lemma loading_of_loading_config: "loading_of loading_config = JBool True"
  by (simp add: loading_of_def loading_config_def field_of_def)

lemma loading_of_empty: "loading_of Map.empty = Undefined"
  by (simp add: loading_of_def field_of_def)

lemma sample_loading_cancel:
  "loading_cancel sample_client loading_config = [Call LoadingStop 4 []]"
  "loading_cancel sample_client Map.empty = []"
  by (simp_all add: loading_cancel_def loading_of_loading_config loading_of_empty
      sample_client_fields)

lemma sample_accessors:
  "getResponseStatus sample_client ok_body = Inr (JNum 0)"
  "getResponseData sample_client ok_body = Inr (JStr ''payload'')"
  "resolved_message sample_client ok_body = Inr (JStr ''Request Failed'')"
  "getResponseStatus sample_client denied_body = Inr (JNum 1)"
  "getResponseMessage sample_client denied_body = Inr (JStr ''denied'')"
  "getResponseData sample_client denied_body = Inr Undefined"
  "resolved_message sample_client denied_body = Inr (JStr ''denied'')"
  by (simp_all add: sample_client_fields ok_body_def denied_body_def resolved_message_def
      default_getResponseStatus_def default_getResponseMessage_def default_getResponseData_def
      get_prop_def catalog_en en_def)

lemma sample_error_message:
  "error_message sample_client \<lparr>onLine = True\<rparr> unauthorized = Inr (JStr ''Unauthorized'')"
  "error_message sample_client \<lparr>onLine = False\<rparr> unauthorized = Inr (JStr ''Network is Offline'')"
  by (simp_all add: error_message_def sample_client_fields catalog_en unauthorized_def
      show_int_small en_def js_or_def Let_def)

section \<open>Traces of the interceptors\<close>

lemma executor_sites: "ev \<in> set (fst (executor c d p)) \<Longrightarrow> site_of ev = Tip"
  by (auto simp: executor_def show_tip_cases run_errorHandler_idle dest: effect_site
      split: sum.splits if_splits)

lemma response_success_trace:
  "fst (response_success c res) =
     loading_cancel c (res_config res) @
     fst (executor c (res_data res)
           (if \<not> truthy (res_data res) then Some (Resolved Undefined) else None))"
  by (simp add: response_success_def Let_def split: prod.splits)

lemma response_error_trace:
  "\<exists>evs. fst (response_error c e err) =
         (case err_config err of None \<Rightarrow> [] | Some cfg \<Rightarrow> loading_cancel c cfg) @ evs
       \<and> (\<forall>ev \<in> set evs. site_of ev = Tip)"
  by (auto simp: response_error_def Let_def show_tip_cases run_errorHandler_idle
      dest: effect_site split: sum.splits option.splits)

lemma response_error_without_config:
  "err_config err = None \<Longrightarrow> response_error c e err = ([], Inl TypeError)"
  by (simp add: response_error_def)

lemma business_failure:
  assumes "truthy (res_data res)"
      and "getResponseStatus c (res_data res) = Inr status"
      and "js_String status \<noteq> ''0''"
      and "resolved_message c (res_data res) = Inr message"
      and "getResponseData c (res_data res) = Inr d"
  shows "response_success c res =
     (if truthy (tip c)
      then (if is_function (tipFn c)
            then (loading_cancel c (res_config res) @ effect Tip (tipFn c) [message],
                  Some (Rejected message))
            else (loading_cancel c (res_config res), Some (Failed TypeError)))
      else (loading_cancel c (res_config res), Some (Rejected message)))"
  using assms
  by (simp add: response_success_def executor_def Let_def show_tip_cases run_errorHandler_idle)

lemma transport_failure:
  assumes "err_config err = Some cfg"
      and "error_message c e err = Inr errmsg"
  shows "response_error c e err =
     (if truthy (tip c)
      then (if is_function (tipFn c)
            then (loading_cancel c cfg @ effect Tip (tipFn c) [errmsg], Inr Undefined)
            else (loading_cancel c cfg, Inl TypeError))
      else (loading_cancel c cfg, Inr Undefined))"
  using assms
  by (simp add: response_error_def Let_def show_tip_cases run_errorHandler_idle)

lemma sample_truthy: "truthy ok_body" "truthy denied_body"
  by (simp_all add: ok_body_def denied_body_def)

section \<open>Status-specific handlers\<close>

text \<open>
  C1. The claim: on a business failure and on a transport failure that carries a server
  response, the handler registered in \<^verbatim>\<open>errorHandlers\<close> under the status is invoked exactly
  once, and on the business-failure path an enabled tip is shown once with the resolved
  message. The code guards the call with \<^verbatim>\<open>typeof errorHandlers === 'function'\<close> (the
  mapping's name, unbound there) instead of \<^verbatim>\<open>typeof errorHandler\<close>, so no handler ever
  runs. The sample client registers function 1 under status 1 and function 2 under
  status 401: a business failure with status 1 and an HTTP 401 leave only the stop and
  tip calls in the trace.
\<close>

theorem C1_registered_handler_never_runs:
  "errorHandlers sample_client (js_String (JNum 1)) = Some (Callable (UserFn 1))
   \<and> response_success sample_client \<lparr>res_config = loading_config, res_data = denied_body\<rparr>
       = ([Call LoadingStop 4 [], Call Tip 0 [JStr ''denied'']], Some (Rejected (JStr ''denied'')))
   \<and> errorHandlers sample_client (js_String (JNum 401)) = Some (Callable (UserFn 2))
   \<and> response_error sample_client \<lparr>onLine = True\<rparr> unauthorized
       = ([Call LoadingStop 4 [], Call Tip 0 [JStr ''Unauthorized'']], Inr Undefined)"
proof -
  have "response_success sample_client \<lparr>res_config = loading_config, res_data = denied_body\<rparr>
      = ([Call LoadingStop 4 [], Call Tip 0 [JStr ''denied'']], Some (Rejected (JStr ''denied'')))"
    by (subst business_failure [where status = "JNum 1" and message = "JStr ''denied''"
          and d = Undefined])
      (simp_all add: sample_accessors sample_truthy show_int_small,
       simp add: sample_client_fields sample_loading_cancel)
  moreover have "response_error sample_client \<lparr>onLine = True\<rparr> unauthorized
      = ([Call LoadingStop 4 [], Call Tip 0 [JStr ''Unauthorized'']], Inr Undefined)"
    by (subst transport_failure [OF _ sample_error_message(1), where cfg = loading_config])
      (simp_all add: sample_client_fields sample_loading_cancel unauthorized_def)
  ultimately show ?thesis
    by (simp add: sample_client_fields show_int_small)
qed

text \<open>What holds on every path: the guarded handler call does nothing.\<close>

lemma no_handler_call_success: "ev \<in> set (fst (response_success c res)) \<Longrightarrow> site_of ev \<noteq> Handler"
  by (auto simp: response_success_trace dest: loading_cancel_sites executor_sites)

lemma no_handler_call_error: "ev \<in> set (fst (response_error c e err)) \<Longrightarrow> site_of ev \<noteq> Handler"
  using response_error_trace [of c e err]
  by (auto dest!: loading_cancel_sites split: option.splits)

section \<open>Business responses\<close>

text \<open>
  C2, as stated: every 2xx response whose business status compares as a string equal to
  \<^verbatim>\<open>"0"\<close> resolves with the payload that the data accessor extracts. It fails for a falsy
  body: line 99 resolves with no value first, and the later \<^verbatim>\<open>resolve(data)\<close> is void.
  With the identity for the status and data accessors and the body \<^verbatim>\<open>0\<close>, the status is
  \<^verbatim>\<open>"0"\<close> and the payload \<^verbatim>\<open>0\<close>, but the promise resolves with \<^verbatim>\<open>undefined\<close>.
\<close>

theorem C2_counterexample_falsy_body:
  "getResponseStatus
     (VeryAxios (no_options\<lparr>opt_getResponseStatus := Some Inr, opt_getResponseData := Some Inr\<rparr>)
        Map.empty) (JNum 0) = Inr (JNum 0)
   \<and> js_String (JNum 0) = ''0''
   \<and> getResponseData
     (VeryAxios (no_options\<lparr>opt_getResponseStatus := Some Inr, opt_getResponseData := Some Inr\<rparr>)
        Map.empty) (JNum 0) = Inr (JNum 0)
   \<and> snd (response_success
     (VeryAxios (no_options\<lparr>opt_getResponseStatus := Some Inr, opt_getResponseData := Some Inr\<rparr>)
        Map.empty) \<lparr>res_config = Map.empty, res_data = JNum 0\<rparr>) = Some (Resolved Undefined)
   \<and> Resolved Undefined \<noteq> Resolved (JNum 0)"
  by (simp add: VeryAxios_def no_options_def default_option_def response_success_def
      executor_def resolved_message_def default_getResponseMessage_def get_prop_def
      catalog_zh_cn zh_cn_def show_int_small loading_cancel_def loading_of_empty)

text \<open>
  C2, amended: for every 2xx response with a truthy body whose business status compares
  as a string equal to \<^verbatim>\<open>"0"\<close>, the message resolution and the data accessor returning
  normally, the operation resolves with the payload that the data accessor extracts, and
  the only call made is the loading-stop call: no tip, no handler.
\<close>

theorem C2_success_resolves_with_payload:
  assumes "truthy (res_data res)"
      and "getResponseStatus c (res_data res) = Inr status"
      and "js_String status = ''0''"
      and "resolved_message c (res_data res) = Inr message"
      and "getResponseData c (res_data res) = Inr d"
  shows "response_success c res = (loading_cancel c (res_config res), Some (Resolved d))
       \<and> (\<forall>ev \<in> set (fst (response_success c res)). site_of ev \<noteq> Tip \<and> site_of ev \<noteq> Handler)"
proof -
  have "response_success c res = (loading_cancel c (res_config res), Some (Resolved d))"
    using assms by (simp add: response_success_def executor_def Let_def)
  then show ?thesis
    by (auto dest: loading_cancel_sites)
qed

theorem C2_success_resolves_with_payload_witness:
  "truthy ok_body
   \<and> getResponseStatus sample_client ok_body = Inr (JNum 0)
   \<and> js_String (JNum 0) = ''0''
   \<and> resolved_message sample_client ok_body = Inr (JStr ''Request Failed'')
   \<and> getResponseData sample_client ok_body = Inr (JStr ''payload'')
   \<and> response_success sample_client \<lparr>res_config = loading_config, res_data = ok_body\<rparr>
       = ([Call LoadingStop 4 []], Some (Resolved (JStr ''payload'')))"
proof -
  have h: "truthy (res_data \<lparr>res_config = loading_config, res_data = ok_body\<rparr>)"
      "getResponseStatus sample_client (res_data \<lparr>res_config = loading_config, res_data = ok_body\<rparr>)
         = Inr (JNum 0)"
      "js_String (JNum 0) = ''0''"
      "resolved_message sample_client (res_data \<lparr>res_config = loading_config, res_data = ok_body\<rparr>)
         = Inr (JStr ''Request Failed'')"
      "getResponseData sample_client (res_data \<lparr>res_config = loading_config, res_data = ok_body\<rparr>)
         = Inr (JStr ''payload'')"
    by (simp_all add: sample_accessors show_int_small sample_truthy)
  from C2_success_resolves_with_payload [OF h] h show ?thesis
    by (simp add: sample_loading_cancel)
qed

text \<open>
  C3, as stated: every 2xx response whose business status compares as a string unequal to
  \<^verbatim>\<open>"0"\<close> fails with the resolved message. It fails for a falsy body: with the default
  accessors an empty body has the status \<^verbatim>\<open>undefined\<close>, which is not \<^verbatim>\<open>"0"\<close>, yet line 99
  has resolved the promise with no value before \<^verbatim>\<open>reject(message)\<close> is reached.
\<close>

theorem C3_counterexample_empty_body:
  "getResponseStatus (VeryAxios no_options Map.empty) (JStr []) = Inr Undefined
   \<and> js_String Undefined \<noteq> ''0''
   \<and> snd (response_success (VeryAxios no_options Map.empty)
            \<lparr>res_config = Map.empty, res_data = JStr []\<rparr>) = Some (Resolved Undefined)"
  by (simp add: VeryAxios_def no_options_def default_option_def response_success_def
      executor_def resolved_message_def default_getResponseStatus_def
      default_getResponseMessage_def default_getResponseData_def get_prop_def
      catalog_zh_cn zh_cn_def loading_cancel_def loading_of_empty show_tip_cases
      run_errorHandler_idle tip_gate_def tip_param_def default_jsval_def)

text \<open>
  C3, amended: for every 2xx response with a truthy body whose business status compares
  as a string unequal to \<^verbatim>\<open>"0"\<close>, the accessors returning normally and the language being
  one of the catalog, the operation fails, and the reason is the message that the message
  accessor extracts, or the catalog's \<^verbatim>\<open>DEFAULT\<close> entry for the language when that message
  is falsy. In particular, language \<^verbatim>\<open>zh-cn\<close>, status \<^verbatim>\<open>"1"\<close> and the message of the
  scenario fail with exactly that message.
\<close>

theorem C3_business_failure_rejects_with_message:
  assumes "truthy (res_data res)"
      and "getResponseStatus (VeryAxios opts ac) (res_data res) = Inr status"
      and "js_String status \<noteq> ''0''"
      and "getResponseMessage (VeryAxios opts ac) (res_data res) = Inr m"
      and "getResponseData (VeryAxios opts ac) (res_data res) = Inr d"
      and "ERROR_MESSAGE_MAPS (lang (VeryAxios opts ac)) = Some errmsgMaps"
  shows "(\<exists>s. errmsgMaps ''DEFAULT'' = Some s
            \<and> snd (response_success (VeryAxios opts ac) res)
                = Some (Rejected (if truthy m then m else JStr s)))
       \<and> snd (response_success (VeryAxios (no_options\<lparr>opt_lang := Some ''zh-cn''\<rparr>) Map.empty)
               \<lparr>res_config = Map.empty,
                res_data = JObj [(''errno'', JStr ''1''), (''errmsg'', JStr custom_error)]\<rparr>)
           = Some (Rejected (JStr custom_error))"
proof -
  obtain s where s: "errmsgMaps ''DEFAULT'' = Some s"
    using catalog_has [OF assms(6)] by blast
  have msg: "resolved_message (VeryAxios opts ac) (res_data res)
      = Inr (if truthy m then m else JStr s)"
    using assms(4,6) s by (simp add: resolved_message_def)
  have "snd (response_success (VeryAxios opts ac) res)
      = Some (Rejected (if truthy m then m else JStr s))"
    using constructed_gate [of opts ac]
    by (simp add: business_failure [OF assms(1,2,3) msg assms(5)])
  with s have general: "\<exists>s. errmsgMaps ''DEFAULT'' = Some s
      \<and> snd (response_success (VeryAxios opts ac) res)
          = Some (Rejected (if truthy m then m else JStr s))"
    by blast
  have scenario: "snd (response_success (VeryAxios (no_options\<lparr>opt_lang := Some ''zh-cn''\<rparr>) Map.empty)
               \<lparr>res_config = Map.empty,
                res_data = JObj [(''errno'', JStr ''1''), (''errmsg'', JStr custom_error)]\<rparr>)
           = Some (Rejected (JStr custom_error))"
    by (simp add: VeryAxios_def no_options_def default_option_def response_success_def
      executor_def resolved_message_def default_getResponseStatus_def
      default_getResponseMessage_def default_getResponseData_def get_prop_def
      loading_cancel_def loading_of_empty show_tip_cases custom_error_def
      run_errorHandler_idle tip_gate_def tip_param_def default_jsval_def)
  from general scenario show ?thesis
    by blast
qed

theorem C3_business_failure_rejects_with_message_witness:
  "truthy denied_body
   \<and> getResponseStatus (VeryAxios sample_options Map.empty) denied_body = Inr (JNum 1)
   \<and> js_String (JNum 1) \<noteq> ''0''
   \<and> getResponseMessage (VeryAxios sample_options Map.empty) denied_body = Inr (JStr ''denied'')
   \<and> getResponseData (VeryAxios sample_options Map.empty) denied_body = Inr Undefined
   \<and> ERROR_MESSAGE_MAPS (lang (VeryAxios sample_options Map.empty)) = Some (map_of en)
   \<and> snd (response_success (VeryAxios sample_options Map.empty)
            \<lparr>res_config = Map.empty, res_data = denied_body\<rparr>) = Some (Rejected (JStr ''denied''))"
proof -
  have h: "truthy (res_data \<lparr>res_config = Map.empty, res_data = denied_body\<rparr>)"
      "getResponseStatus (VeryAxios sample_options Map.empty)
         (res_data \<lparr>res_config = Map.empty, res_data = denied_body\<rparr>) = Inr (JNum 1)"
      "js_String (JNum 1) \<noteq> ''0''"
      "getResponseMessage (VeryAxios sample_options Map.empty)
         (res_data \<lparr>res_config = Map.empty, res_data = denied_body\<rparr>) = Inr (JStr ''denied'')"
      "getResponseData (VeryAxios sample_options Map.empty)
         (res_data \<lparr>res_config = Map.empty, res_data = denied_body\<rparr>) = Inr Undefined"
      "ERROR_MESSAGE_MAPS (lang (VeryAxios sample_options Map.empty)) = Some (map_of en)"
    using sample_accessors sample_client_fields
    by (simp_all add: sample_client_def [symmetric] show_int_small catalog_en sample_truthy)
  from C3_business_failure_rejects_with_message [OF h] h show ?thesis
    by auto
qed

section \<open>Transport failures\<close>

text \<open>
  A failure that carries its request config: for a constructed client whose language is
  one of the catalog, the handler returns no value, that is, it neither returns a promise
  nor throws; and after the loading-stop call that every response handler makes first,
  the only call it makes is the tip call with the resolved message, when tipping is
  enabled.
\<close>

lemma error_message_resolves:
  assumes "ERROR_MESSAGE_MAPS (lang c) = Some errmsgMaps"
      and "err_config err = Some cfg"
  shows "\<exists>errmsg. error_message c e err = Inr errmsg"
  using assms by (auto simp: error_message_def Let_def)

lemma error_message_without_config:
  "err_config err = None \<Longrightarrow> error_message c e err = Inl TypeError"
  by (simp add: error_message_def)

lemma error_handler_with_config:
  assumes "err_config err = Some cfg"
      and "error_message (VeryAxios opts ac) e err = Inr errmsg"
  shows "response_error (VeryAxios opts ac) e err =
     (loading_cancel (VeryAxios opts ac) cfg @
        (if truthy (tip (VeryAxios opts ac)) then effect Tip (opt_tipFn opts) [errmsg] else []),
      Inr Undefined)"
proof -
  have "tipFn (VeryAxios opts ac) = opt_tipFn opts"
    by (simp add: VeryAxios_def)
  then show ?thesis
    using constructed_gate [of opts ac] by (simp add: transport_failure [OF assms])
qed

text \<open>
  Seen from the caller: the handler's return value fulfils the request's promise, so a
  failure that axios built reaches the caller as a success with no value; a request that
  was given up reaches the caller as a rejection with the handler's \<open>TypeError\<close>.
\<close>

lemma transport_failure_reaches_caller:
  assumes "ERROR_MESSAGE_MAPS (lang (VeryAxios opts ac)) = Some errmsgMaps"
  shows "snd (axios_request (VeryAxios opts ac) e (Fails rsp req msg) cfg)
       = Some (Resolved Undefined)"
proof -
  let ?err = "\<lparr>err_config = Some cfg, err_response = rsp, err_request = req, err_message = msg\<rparr>"
  have cfg: "err_config ?err = Some cfg"
    by simp
  obtain errmsg where "error_message (VeryAxios opts ac) e ?err = Inr errmsg"
    using error_message_resolves [OF assms cfg] by blast
  from transport_failure [OF cfg this] show ?thesis
    using constructed_gate [of opts ac]
    by (simp add: axios_request_def request_interceptor_def Let_def)
qed

lemma aborted_request_reaches_caller:
  "snd (axios_request c e (Aborts msg) cfg) = Some (Failed TypeError)"
  by (simp add: axios_request_def request_interceptor_def Let_def response_error_without_config)


text \<open>
  The message of a failure that carries its request config, for a language of the
  catalog: with a server response, the \<^verbatim>\<open>OFFLINE\<close> entry when the client is offline,
  whatever the status; otherwise the entry for the response's status code, or the raw
  failure message when the catalog has no such entry; without a response, the raw failure
  message, whether a request was sent or not.
\<close>

lemma error_message_priority:
  assumes "ERROR_MESSAGE_MAPS (lang c) = Some errmsgMaps"
      and "err_config err = Some cfg"
  shows "(truthy (err_response err) \<and> \<not> onLine e \<longrightarrow>
            (\<exists>s. errmsgMaps ''OFFLINE'' = Some s \<and> error_message c e err = Inr (JStr s)))
       \<and> (truthy (err_response err) \<and> onLine e \<longrightarrow>
            error_message c e err =
              Inr (case errmsgMaps (js_String (own (err_response err) ''status'')) of
                     Some s \<Rightarrow> JStr s
                   | None \<Rightarrow> err_message err))
       \<and> (\<not> truthy (err_response err) \<and> truthy (err_request err) \<longrightarrow>
            error_message c e err = Inr (err_message err))
       \<and> (\<not> truthy (err_response err) \<and> \<not> truthy (err_request err) \<longrightarrow>
            error_message c e err = Inr (err_message err))"
proof -
  obtain off where off: "errmsgMaps ''OFFLINE'' = Some off"
    using catalog_has [OF assms(1)] by blast
  have entry: "js_or (case errmsgMaps k of None \<Rightarrow> Undefined | Some s \<Rightarrow> JStr s) m
      = (case errmsgMaps k of Some s \<Rightarrow> JStr s | None \<Rightarrow> m)" for k m
    using catalog_nonempty [OF assms(1), of k] by (simp add: js_or_def split: option.splits)
  show ?thesis
    using assms off by (simp add: error_message_def Let_def entry)
qed

text \<open>
  C5. The claim: the message of every transport failure is resolved by priority, a
  setup-time failure, before the request was even sent, resolving to the raw failure
  message. Lines 138 to 141 are the branch for it, but an exception thrown before the
  request is sent reaches the handler without \<^verbatim>\<open>config\<close>: with no response and no request
  it belongs to that branch, yet the handler throws \<open>TypeError\<close> at line 118 and resolves no
  message.
\<close>

theorem C5_setup_failure_resolves_no_message:
  "\<not> truthy (err_response setup_failure)
   \<and> \<not> truthy (err_request setup_failure)
   \<and> err_message setup_failure = JStr ''transform failed''
   \<and> ERROR_MESSAGE_MAPS (lang sample_client) = Some (map_of en)
   \<and> error_message sample_client \<lparr>onLine = True\<rparr> setup_failure = Inl TypeError
   \<and> response_error sample_client \<lparr>onLine = True\<rparr> setup_failure = ([], Inl TypeError)"
  by (simp add: setup_failure_def error_message_def response_error_def sample_client_fields(4)
      catalog_en)

section \<open>The catalog and the configuration\<close>

text \<open>
  C6, as stated: under language \<^verbatim>\<open>en\<close>, a transport error with status code 404 and no
  message field in the body resolves to exactly \<^verbatim>\<open>Not Found\<close>. Line 127 gives every failure
  with a server response the \<^verbatim>\<open>OFFLINE\<close> message while the client is offline: the same
  error, under the same language, then resolves to \<^verbatim>\<open>Network is Offline\<close>.
\<close>

theorem C6_counterexample_offline:
  "lang sample_client = ''en''
   \<and> own (err_response not_found) ''status'' = JNum 404
   \<and> own (own (err_response not_found) ''data'') ''errmsg'' = Undefined
   \<and> error_message sample_client \<lparr>onLine = False\<rparr> not_found = Inr (JStr ''Network is Offline'')
   \<and> JStr ''Network is Offline'' \<noteq> JStr ''Not Found''"
  by (simp add: sample_client_fields(4) not_found_def error_message_def catalog_en en_def)

text \<open>
  C6, amended: the catalog has exactly the two languages \<^verbatim>\<open>zh-cn\<close> and \<^verbatim>\<open>en\<close>, each keyed
  exactly by \<^verbatim>\<open>DEFAULT\<close>, \<^verbatim>\<open>OFFLINE\<close> and the status codes 400, 401, 403, 404, 405, 413, 414,
  500, 502 and 504; and under language \<^verbatim>\<open>en\<close>, while the client is online, a transport error
  that carries its request config and whose response has status 404 resolves to exactly
  \<^verbatim>\<open>Not Found\<close>, whatever else the response holds.
\<close>

theorem C6_catalog_keys_and_not_found:
  "dom ERROR_MESSAGE_MAPS = {''zh-cn'', ''en''}
   \<and> (\<forall>l m. ERROR_MESSAGE_MAPS l = Some m \<longrightarrow>
          dom m = {''DEFAULT'', ''OFFLINE'', ''400'', ''401'', ''403'', ''404'', ''405'', ''413'',
                   ''414'', ''500'', ''502'', ''504''})
   \<and> (\<forall>c e err cfg rest.
          lang c = ''en'' \<and> onLine e \<and> err_config err = Some cfg
          \<and> err_response err = JObj ((''status'', JNum 404) # rest) \<longrightarrow>
          error_message c e err = Inr (JStr ''Not Found''))"
proof (intro conjI allI impI)
  show "dom ERROR_MESSAGE_MAPS = {''zh-cn'', ''en''}"
    by (auto simp: ERROR_MESSAGE_MAPS_def split: if_splits)
next
  fix l m
  assume "ERROR_MESSAGE_MAPS l = Some m"
  from catalog_cases [OF this] have "m = map_of zh_cn \<or> m = map_of en"
    by blast
  then show "dom m = {''DEFAULT'', ''OFFLINE'', ''400'', ''401'', ''403'', ''404'', ''405'',
      ''413'', ''414'', ''500'', ''502'', ''504''}"
    by (elim disjE) (simp_all only: zh_cn_dom en_dom)
next
  fix c :: client and e :: env and err :: error and cfg :: jsobj
    and rest :: "(string \<times> jsval) list"
  assume "lang c = ''en'' \<and> onLine e \<and> err_config err = Some cfg
      \<and> err_response err = JObj ((''status'', JNum 404) # rest)"
  then show "error_message c e err = Inr (JStr ''Not Found'')"
    by (simp add: error_message_def catalog_en show_int_small en_def js_or_def)
qed

theorem C6_catalog_keys_and_not_found_witness:
  "ERROR_MESSAGE_MAPS ''en'' = Some (map_of en)
   \<and> dom (map_of en) = {''DEFAULT'', ''OFFLINE'', ''400'', ''401'', ''403'', ''404'', ''405'',
        ''413'', ''414'', ''500'', ''502'', ''504''}
   \<and> lang sample_client = ''en''
   \<and> err_config not_found = Some Map.empty
   \<and> err_response not_found = JObj [(''status'', JNum 404), (''data'', JObj [])]
   \<and> error_message sample_client \<lparr>onLine = True\<rparr> not_found = Inr (JStr ''Not Found'')"
proof -
  note scenario = C6_catalog_keys_and_not_found [THEN conjunct2, THEN conjunct2, rule_format]
  have "error_message sample_client \<lparr>onLine = True\<rparr> not_found = Inr (JStr ''Not Found'')"
    by (rule scenario [where rest = "[(''data'', JObj [])]" and cfg = Map.empty])
      (simp add: sample_client_fields not_found_def)
  then show ?thesis
    by (simp add: catalog_en en_dom sample_client_fields not_found_def)
qed

text \<open>
  C7. The client's transport configuration is the user's configuration over the built-in
  defaults: a key of the user's configuration has the user's value, every other key has
  its default value, and the defaults are a timeout of 20000, the response type
  \<^verbatim>\<open>json\<close> and the header \<^verbatim>\<open>content-type: application/json\<close>.
\<close>

theorem C7_config_is_user_over_defaults:
  "config (VeryAxios opts axiosConfig) = defaultAxiosConfig (VeryAxios opts axiosConfig) ++ axiosConfig
   \<and> (\<forall>k v. axiosConfig k = Some v \<longrightarrow> config (VeryAxios opts axiosConfig) k = Some v)
   \<and> (\<forall>k. axiosConfig k = None \<longrightarrow>
          config (VeryAxios opts axiosConfig) k = defaultAxiosConfig (VeryAxios opts axiosConfig) k)
   \<and> defaultAxiosConfig (VeryAxios opts axiosConfig) =
        [''timeout'' \<mapsto> JNum 20000, ''responseType'' \<mapsto> JStr ''json'',
         ''headers'' \<mapsto> JObj [(''content-type'', JStr ''application/json'')]]"
  by (auto simp: VeryAxios_def default_axios_config_def map_add_def)

theorem C7_config_is_user_over_defaults_witness:
  "[''timeout'' \<mapsto> JNum 5000] ''timeout'' = Some (JNum 5000)
   \<and> config (VeryAxios no_options [''timeout'' \<mapsto> JNum 5000]) ''timeout'' = Some (JNum 5000)
   \<and> [''timeout'' \<mapsto> JNum 5000] ''responseType'' = None
   \<and> config (VeryAxios no_options [''timeout'' \<mapsto> JNum 5000]) ''responseType''
       = Some (JStr ''json'')"
proof -
  note merged = C7_config_is_user_over_defaults [of no_options "[''timeout'' \<mapsto> JNum 5000]"]
  note user = merged [THEN conjunct2, THEN conjunct1, rule_format]
  note dflt = merged [THEN conjunct2, THEN conjunct2, THEN conjunct1, rule_format]
  note table = merged [THEN conjunct2, THEN conjunct2, THEN conjunct2]
  have a: "[''timeout'' \<mapsto> JNum 5000] ''timeout'' = Some (JNum 5000)"
    and b: "[''timeout'' \<mapsto> JNum 5000] ''responseType'' = None"
    by simp_all
  have "config (VeryAxios no_options [''timeout'' \<mapsto> JNum 5000]) ''timeout'' = Some (JNum 5000)"
    by (rule user [OF a])
  moreover have "config (VeryAxios no_options [''timeout'' \<mapsto> JNum 5000]) ''responseType''
      = Some (JStr ''json'')"
    by (simp add: dflt [OF b] table)
  ultimately show ?thesis
    using a b by simp
qed

section \<open>The tip gate and the defaults\<close>

text \<open>
  C9. Tipping is active in a constructed client exactly when the tip option is truthy and
  the tip function is a function. The constructor stores the result in \<^verbatim>\<open>this.tip\<close>, and
  both the business-failure path and the transport-failure path consult the stored value
  only: for any stored state, the tip function is called when the stored value is truthy
  and not otherwise, and it is called unchecked, so that a stored truthy value with a
  tip function that is none throws.
\<close>

theorem C9_tip_gate_computed_once:
  "(truthy (tip (VeryAxios opts ac)) \<longleftrightarrow> truthy (tip_param opts) \<and> is_function (opt_tipFn opts))
   \<and> tip (VeryAxios opts ac) = tip_gate (tip_param opts) (opt_tipFn opts)
   \<and> (truthy (res_data res) \<and> getResponseStatus c (res_data res) = Inr status
        \<and> js_String status \<noteq> ''0'' \<and> resolved_message c (res_data res) = Inr message
        \<and> getResponseData c (res_data res) = Inr d \<longrightarrow>
       response_success c res =
         (if truthy (tip c)
          then (if is_function (tipFn c)
                then (loading_cancel c (res_config res) @ effect Tip (tipFn c) [message],
                      Some (Rejected message))
                else (loading_cancel c (res_config res), Some (Failed TypeError)))
          else (loading_cancel c (res_config res), Some (Rejected message))))
   \<and> (err_config err = Some cfg \<and> error_message c e err = Inr errmsg \<longrightarrow>
       response_error c e err =
         (if truthy (tip c)
          then (if is_function (tipFn c)
                then (loading_cancel c cfg @ effect Tip (tipFn c) [errmsg], Inr Undefined)
                else (loading_cancel c cfg, Inl TypeError))
          else (loading_cancel c cfg, Inr Undefined)))"
proof (intro conjI impI)
  show "truthy (tip (VeryAxios opts ac)) \<longleftrightarrow> truthy (tip_param opts) \<and> is_function (opt_tipFn opts)"
    by (simp add: VeryAxios_def tip_gate_truthy)
next
  show "tip (VeryAxios opts ac) = tip_gate (tip_param opts) (opt_tipFn opts)"
    by (simp add: VeryAxios_def)
next
  assume "truthy (res_data res) \<and> getResponseStatus c (res_data res) = Inr status
        \<and> js_String status \<noteq> ''0'' \<and> resolved_message c (res_data res) = Inr message
        \<and> getResponseData c (res_data res) = Inr d"
  then show "response_success c res =
         (if truthy (tip c)
          then (if is_function (tipFn c)
                then (loading_cancel c (res_config res) @ effect Tip (tipFn c) [message],
                      Some (Rejected message))
                else (loading_cancel c (res_config res), Some (Failed TypeError)))
          else (loading_cancel c (res_config res), Some (Rejected message)))"
    by (elim conjE) (rule business_failure; assumption)
next
  assume "err_config err = Some cfg \<and> error_message c e err = Inr errmsg"
  then show "response_error c e err =
         (if truthy (tip c)
          then (if is_function (tipFn c)
                then (loading_cancel c cfg @ effect Tip (tipFn c) [errmsg], Inr Undefined)
                else (loading_cancel c cfg, Inl TypeError))
          else (loading_cancel c cfg, Inr Undefined))"
    by (elim conjE) (rule transport_failure; assumption)
qed

theorem C9_tip_gate_computed_once_witness:
  "truthy (tip (VeryAxios sample_options Map.empty))
   \<and> \<not> truthy (tip (VeryAxios (sample_options\<lparr>opt_tipFn := NonCallable (JStr ''alert'')\<rparr>) Map.empty))
   \<and> \<not> truthy (tip (VeryAxios (sample_options\<lparr>opt_tip := JBool False\<rparr>) Map.empty))
   \<and> response_success (sample_client\<lparr>tip := JBool False\<rparr>)
        \<lparr>res_config = Map.empty, res_data = denied_body\<rparr>
       = ([], Some (Rejected (JStr ''denied'')))
   \<and> response_success (sample_client\<lparr>tipFn := NonCallable (JStr ''alert'')\<rparr>)
        \<lparr>res_config = Map.empty, res_data = denied_body\<rparr>
       = ([], Some (Failed TypeError))
   \<and> response_error sample_client \<lparr>onLine = False\<rparr> unauthorized
       = ([Call LoadingStop 4 [], Call Tip 0 [JStr ''Network is Offline'']], Inr Undefined)"
proof -
  note gate = C9_tip_gate_computed_once [THEN conjunct1]
  note success = C9_tip_gate_computed_once [THEN conjunct2, THEN conjunct2, THEN conjunct1, rule_format]
  note failure = C9_tip_gate_computed_once [THEN conjunct2, THEN conjunct2, THEN conjunct2, rule_format]
  have g: "truthy (tip (VeryAxios sample_options Map.empty))"
      "\<not> truthy (tip (VeryAxios (sample_options\<lparr>opt_tipFn := NonCallable (JStr ''alert'')\<rparr>) Map.empty))"
      "\<not> truthy (tip (VeryAxios (sample_options\<lparr>opt_tip := JBool False\<rparr>) Map.empty))"
    by (simp_all add: gate sample_options_def tip_param_def default_jsval_def)
  have s1: "response_success (sample_client\<lparr>tip := JBool False\<rparr>)
        \<lparr>res_config = Map.empty, res_data = denied_body\<rparr> = ([], Some (Rejected (JStr ''denied'')))"
    by (subst success [where status = "JNum 1" and message = "JStr ''denied''" and d = Undefined])
      (simp_all add: sample_truthy show_int_small sample_accessors resolved_message_def
        loading_cancel_def loading_of_empty)
  have s2: "response_success (sample_client\<lparr>tipFn := NonCallable (JStr ''alert'')\<rparr>)
        \<lparr>res_config = Map.empty, res_data = denied_body\<rparr> = ([], Some (Failed TypeError))"
    by (subst success [where status = "JNum 1" and message = "JStr ''denied''" and d = Undefined])
      (simp_all add: sample_truthy show_int_small sample_accessors resolved_message_def
        loading_cancel_def loading_of_empty sample_client_fields(1))
  have s3: "response_error sample_client \<lparr>onLine = False\<rparr> unauthorized
       = ([Call LoadingStop 4 [], Call Tip 0 [JStr ''Network is Offline'']], Inr Undefined)"
  proof -
    have "err_config unauthorized = Some loading_config
        \<and> error_message sample_client \<lparr>onLine = False\<rparr> unauthorized
            = Inr (JStr ''Network is Offline'')"
      using sample_error_message(2) by (simp add: unauthorized_def)
    from failure [OF this] show ?thesis
      by (simp add: sample_client_fields sample_loading_cancel)
  qed
  from g s1 s2 s3 show ?thesis
    by simp
qed



section \<open>Loading callbacks\<close>

text \<open>
  The interceptors read the loading flag from \<^verbatim>\<open>config.veryAxiosConfig.loading\<close>. \<^verbatim>\<open>GET\<close> puts
  its options there, so for a truthy loading flag the start callback runs once, before
  the request, and the stop callback once, after it, whether the network answers or
  fails; for a request that is given up, the error handler throws before the stop call.
\<close>

lemma own_truthy: "truthy (own v k) \<Longrightarrow> truthy v"
  by (cases v) simp_all

lemma GET_request_config:
  assumes "truthy opts"
  shows "loading_of (request_config c
      (JObj [(''params'', p), (''veryAxiosConfig'', default_jsval (JObj []) opts)])
      [(''method'', JStr ''get''), (''url'', path)]) = own opts ''loading''"
  using assms
  by (auto simp: loading_of_def request_config_def field_of_def map_add_def default_jsval_def)

lemma GET_loading_once:
  assumes "loadingHandler c = Callable (UserFn a)"
      and "loadingCancelHanlder c = Callable (UserFn b)"
      and "truthy (own opts ''loading'')"
  shows "filter (\<lambda>ev. site_of ev \<noteq> Tip) (fst (GET c e n path param opts))
       = (case n of
            Aborts msg \<Rightarrow> [Call LoadingStart a []]
          | _ \<Rightarrow> [Call LoadingStart a [], Call LoadingStop b []])"
proof -
  let ?cfg = "request_config c
      (JObj [(''params'', default_jsval (JObj []) param),
             (''veryAxiosConfig'', default_jsval (JObj []) opts)])
      [(''method'', JStr ''get''), (''url'', path)]"
  from assms(3) have "truthy opts"
    by (rule own_truthy)
  with assms(3) have flag: "truthy (loading_of ?cfg)"
    by (simp add: GET_request_config)
  have start: "request_interceptor c ?cfg = ([Call LoadingStart a []], ?cfg)"
    using flag assms(1) by (simp add: request_interceptor_def Let_def)
  have stop: "loading_cancel c ?cfg = [Call LoadingStop b []]"
    using flag assms(2) by (simp add: loading_cancel_def Let_def)
  have run: "GET c e n' path param opts = axios_request c e n' ?cfg" for n'
    by (simp add: GET_def fetch_def axios_verb_def default_jsval_def)
  show ?thesis
  proof (cases n)
    case (Responds body)
    obtain evs q where rs:
      "response_success c \<lparr>res_config = ?cfg, res_data = body\<rparr> = (evs, q)"
      by fastforce
    have quiet: "filter (\<lambda>ev. site_of ev \<noteq> Tip)
        (fst (executor c body (if \<not> truthy body then Some (Resolved Undefined) else None))) = []"
      by (auto simp: filter_empty_conv dest: executor_sites)
    have "evs = loading_cancel c ?cfg
        @ fst (executor c body (if \<not> truthy body then Some (Resolved Undefined) else None))"
      using response_success_trace [of c "\<lparr>res_config = ?cfg, res_data = body\<rparr>"] rs by simp
    then have "filter (\<lambda>ev. site_of ev \<noteq> Tip) evs = [Call LoadingStop b []]"
      using quiet stop by simp
    then show ?thesis
      by (simp add: run axios_request_def start rs Responds)
  next
    case (Fails rsp req msg)
    obtain evs where evs:
      "fst (response_error c e
         \<lparr>err_config = Some ?cfg, err_response = rsp, err_request = req, err_message = msg\<rparr>)
         = loading_cancel c ?cfg @ evs" "\<forall>ev \<in> set evs. site_of ev = Tip"
      using response_error_trace
        [of c e "\<lparr>err_config = Some ?cfg, err_response = rsp, err_request = req,
                  err_message = msg\<rparr>"]
      by auto
    obtain tr r where re:
      "response_error c e
         \<lparr>err_config = Some ?cfg, err_response = rsp, err_request = req, err_message = msg\<rparr>
         = (tr, r)"
      by fastforce
    from evs(2) have "filter (\<lambda>ev. site_of ev \<noteq> Tip) evs = []"
      by (simp add: filter_empty_conv)
    with evs(1) re stop have "filter (\<lambda>ev. site_of ev \<noteq> Tip) tr = [Call LoadingStop b []]"
      by simp
    then show ?thesis
      by (cases r) (simp_all add: run axios_request_def start re Fails)
  next
    case (Aborts msg)
    then show ?thesis
      by (simp add: run axios_request_def start response_error_without_config)
  qed
qed

text \<open>
  C8. The claim: for every request through \<^verbatim>\<open>GET\<close>, \<^verbatim>\<open>POST\<close>, \<^verbatim>\<open>PUT\<close> or \<^verbatim>\<open>DELETE\<close> whose
  options carry a truthy loading flag, the start callback runs once before the request
  and the stop callback once after it settles. \<^verbatim>\<open>POST\<close> and \<^verbatim>\<open>PUT\<close> hand their options to
  axios as the request config itself, and \<^verbatim>\<open>DELETE\<close> hands them to axios as a third argument
  that \<^verbatim>\<open>axios.delete(url, config)\<close> does not take: the flag never reaches
  \<^verbatim>\<open>config.veryAxiosConfig\<close>, and neither callback runs. The same call through \<^verbatim>\<open>GET\<close> runs
  both.
\<close>

theorem C8_post_put_delete_skip_loading:
  "fst (POST sample_client \<lparr>onLine = True\<rparr> (Responds ok_body) (JStr ''/items'') (JObj [])
          (JObj [(''loading'', JBool True)])) = []
   \<and> fst (PUT sample_client \<lparr>onLine = True\<rparr> (Responds ok_body) (JStr ''/items'') (JObj [])
          (JObj [(''loading'', JBool True)])) = []
   \<and> fst (DELETE sample_client \<lparr>onLine = True\<rparr> (Responds ok_body) (JStr ''/items'') (JObj [])
          (JObj [(''loading'', JBool True)])) = []
   \<and> fst (GET sample_client \<lparr>onLine = True\<rparr> (Responds ok_body) (JStr ''/items'') (JObj [])
          (JObj [(''loading'', JBool True)])) = [Call LoadingStart 3 [], Call LoadingStop 4 []]"
proof -
  have flag: "loading_of (request_config sample_client (JObj [(''loading'', JBool True)]) fixed)
      = Undefined"
    if "map_of fixed ''veryAxiosConfig'' = None" for fixed
    using that
    by (simp add: loading_of_def request_config_def field_of_def map_add_def
        sample_client_fields default_axios_config_def)
  have flag': "loading_of (request_config sample_client (JObj []) fixed) = Undefined"
    if "map_of fixed ''veryAxiosConfig'' = None" for fixed
    using that
    by (simp add: loading_of_def request_config_def field_of_def map_add_def
        sample_client_fields default_axios_config_def)
  have quiet: "axios_request sample_client e (Responds ok_body) cfg
      = ([], Some (Resolved (JStr ''payload'')))" if "loading_of cfg = Undefined" for e cfg
    using that
    by (simp add: axios_request_def request_interceptor_def response_success_def
        loading_cancel_def executor_def sample_accessors sample_truthy show_int_small)
  have post: "fst (POST sample_client \<lparr>onLine = True\<rparr> (Responds ok_body) (JStr ''/items'') (JObj [])
          (JObj [(''loading'', JBool True)])) = []"
    by (simp add: POST_def fetch_def axios_verb_def default_jsval_def quiet flag)
  have put: "fst (PUT sample_client \<lparr>onLine = True\<rparr> (Responds ok_body) (JStr ''/items'') (JObj [])
          (JObj [(''loading'', JBool True)])) = []"
    by (simp add: PUT_def fetch_def axios_verb_def default_jsval_def quiet flag)
  have delete: "fst (DELETE sample_client \<lparr>onLine = True\<rparr> (Responds ok_body) (JStr ''/items'')
          (JObj []) (JObj [(''loading'', JBool True)])) = []"
    by (simp add: DELETE_def fetch_def axios_verb_def default_jsval_def quiet flag')
  have flagged: "loading_of (request_config sample_client
        (JObj [(''params'', p), (''veryAxiosConfig'', JObj [(''loading'', JBool True)])]) fixed)
      = JBool True"
    if "map_of fixed ''veryAxiosConfig'' = None" for fixed p
    using that
    by (simp add: loading_of_def request_config_def field_of_def map_add_def)
  have loud: "axios_request sample_client e (Responds ok_body) cfg
      = ([Call LoadingStart 3 [], Call LoadingStop 4 []], Some (Resolved (JStr ''payload'')))"
    if "loading_of cfg = JBool True" for e cfg
    using that
    by (simp add: axios_request_def request_interceptor_def response_success_def
        loading_cancel_def executor_def sample_accessors sample_truthy show_int_small
        sample_client_fields(5,6))
  have "fst (GET sample_client \<lparr>onLine = True\<rparr> (Responds ok_body) (JStr ''/items'') (JObj [])
          (JObj [(''loading'', JBool True)])) = [Call LoadingStart 3 [], Call LoadingStop 4 []]"
    by (simp add: GET_def fetch_def axios_verb_def default_jsval_def loud flagged)
  with post put delete show ?thesis
    by simp
qed

end
